theory Spec2Isabelle
  imports Complex_Main "HOL-Library.Log_Nat"
begin

unbundle bit_operations_syntax

section \<open>The platform the handlers run on\<close>

text \<open>
  \<^verbatim>\<open>server.js\<close> is a list of Express handlers. Everything they compute goes through
  JavaScript's own operations (truthiness, \<^verbatim>\<open>||\<close>, \<^verbatim>\<open>*\<close>, template literals,
  \<^verbatim>\<open>JSON.stringify\<close>) and through Node's \<^verbatim>\<open>crypto.createHmac\<close>. This section
  writes those operations down; the handlers follow in the next one.

  A JavaScript string is modelled by the bytes of its UTF-8 encoding (a \<^typ>\<open>string\<close>),
  which is what goes on the wire and into the HMAC. Strings are assumed well formed
  (no lone surrogates).
\<close>

subsection \<open>Digits and separators\<close>

text \<open>The value of a digit in a radix up to 36; 36 for a character that is no digit.\<close>

definition digit_val :: "char \<Rightarrow> int" where
  "digit_val c = (let n = of_char c in
     if 48 \<le> n \<and> n \<le> 57 then n - 48
     else if 97 \<le> n \<and> n \<le> 122 then n - 87
     else if 65 \<le> n \<and> n \<le> 90 then n - 55
     else 36)"

definition is_digit :: "char \<Rightarrow> bool" where
  "is_digit c = (digit_val c < 10)"

definition radix_value :: "int \<Rightarrow> string \<Rightarrow> int" where
  "radix_value b s = foldl (\<lambda>a c. a * b + digit_val c) 0 s"

definition hexdigit :: "int \<Rightarrow> char" where
  "hexdigit n = (if n < 10 then char_of (48 + n) else char_of (87 + n))"

text \<open>\<^verbatim>\<open>s.split(c)\<close>\<close>

fun split_on :: "char \<Rightarrow> string \<Rightarrow> string list" where
  "split_on c [] = [[]]"
| "split_on c (x # xs) =
     (if x = c then [] # split_on c xs
      else (case split_on c xs of w # ws \<Rightarrow> (x # w) # ws | [] \<Rightarrow> [[x]]))"

subsection \<open>SHA-256 and HMAC (\<^verbatim>\<open>crypto.createHmac('sha256', key).update(s).digest('hex')\<close>)\<close>

text \<open>
  32-bit words are integers in \<open>0 ..< 2^32\<close> with the wrap-around written out; bytes are
  integers in \<open>0 ..< 256\<close>.
\<close>

definition rotr :: "int \<Rightarrow> int \<Rightarrow> int" where
  "rotr p x = (x div p) + (x mod p) * (4294967296 div p)"

definition not32 :: "int \<Rightarrow> int" where
  "not32 x = 4294967295 - x"

definition add32 :: "int \<Rightarrow> int \<Rightarrow> int" where
  "add32 x y = (x + y) mod 4294967296"

definition Ch :: "int \<Rightarrow> int \<Rightarrow> int \<Rightarrow> int" where
  "Ch x y z = (x AND y) XOR (not32 x AND z)"

definition Maj :: "int \<Rightarrow> int \<Rightarrow> int \<Rightarrow> int" where
  "Maj x y z = (x AND y) XOR (x AND z) XOR (y AND z)"

text \<open>The rotation amounts are given as powers of two: \<open>rotr (2^n) x\<close> rotates right by \<open>n\<close>.\<close>

definition bsig0 :: "int \<Rightarrow> int" where
  "bsig0 x = rotr 4 x XOR rotr 8192 x XOR rotr 4194304 x"

definition bsig1 :: "int \<Rightarrow> int" where
  "bsig1 x = rotr 64 x XOR rotr 2048 x XOR rotr 33554432 x"

definition ssig0 :: "int \<Rightarrow> int" where
  "ssig0 x = rotr 128 x XOR rotr 262144 x XOR (x div 8)"

definition ssig1 :: "int \<Rightarrow> int" where
  "ssig1 x = rotr 131072 x XOR rotr 524288 x XOR (x div 1024)"

text \<open>Words written in hexadecimal, separated by spaces.\<close>

definition hex_words :: "string \<Rightarrow> int list" where
  "hex_words s = map (radix_value 16) (split_on CHR '' '' s)"

text \<open>
  The round constants (the first 32 bits of the fractional parts of the cube roots of
  the first 64 primes) and the initial hash value (the same of the square roots of the
  first 8 primes).
\<close>

definition sha256_K :: "int list" where
  "sha256_K = concat (map hex_words
     [''428a2f98 71374491 b5c0fbcf e9b5dba5 3956c25b 59f111f1 923f82a4 ab1c5ed5'',
      ''d807aa98 12835b01 243185be 550c7dc3 72be5d74 80deb1fe 9bdc06a7 c19bf174'',
      ''e49b69c1 efbe4786 0fc19dc6 240ca1cc 2de92c6f 4a7484aa 5cb0a9dc 76f988da'',
      ''983e5152 a831c66d b00327c8 bf597fc7 c6e00bf3 d5a79147 06ca6351 14292967'',
      ''27b70a85 2e1b2138 4d2c6dfc 53380d13 650a7354 766a0abb 81c2c92e 92722c85'',
      ''a2bfe8a1 a81a664b c24b8b70 c76c51a3 d192e819 d6990624 f40e3585 106aa070'',
      ''19a4c116 1e376c08 2748774c 34b0bcb5 391c0cb3 4ed8aa4a 5b9cca4f 682e6ff3'',
      ''748f82ee 78a5636f 84c87814 8cc70208 90befffa a4506ceb bef9a3f7 c67178f2''])"

definition sha256_H0 :: "int list" where
  "sha256_H0 = hex_words ''6a09e667 bb67ae85 3c6ef372 a54ff53a 510e527f 9b05688c 1f83d9ab 5be0cd19''"

text \<open>
  The message schedule is kept newest first: in \<open>schedule ks ws\<close> the list \<open>ws\<close> is
  \<open>[W(t-1), W(t-2), \<dots>]\<close>, and one word is added for each element of \<open>ks\<close>.
\<close>

fun schedule :: "'a list \<Rightarrow> int list \<Rightarrow> int list" where
  "schedule [] ws = ws"
| "schedule (k # ks) ws =
     schedule ks (add32 (add32 (ssig1 (ws ! 1)) (ws ! 6)) (add32 (ssig0 (ws ! 14)) (ws ! 15)) # ws)"

fun round_step :: "int list \<Rightarrow> (int \<times> int) \<Rightarrow> int list" where
  "round_step [a, b, c, d, e, f, g, h] (k, w) =
     (let t1 = add32 (add32 (add32 h (bsig1 e)) (add32 (Ch e f g) k)) w;
          t2 = add32 (bsig0 a) (Maj a b c)
      in [add32 t1 t2, a, b, c, add32 d t1, e, f, g])"
| "round_step s _ = s"

fun be32 :: "int list \<Rightarrow> int list" where
  "be32 (a # b # c # d # r) = (((a * 256 + b) * 256 + c) * 256 + d) # be32 r"
| "be32 _ = []"

definition compress :: "int list \<Rightarrow> int list \<Rightarrow> int list" where
  "compress hs blk =
     (let ws = rev (schedule (drop 16 sha256_K) (rev (be32 blk)))
      in map2 add32 hs (foldl round_step hs (zip sha256_K ws)))"

fun blocks :: "int list \<Rightarrow> int list \<Rightarrow> int list list" where
  "blocks acc [] = (if acc = [] then [] else [rev acc])"
| "blocks acc (x # xs) =
     (if length acc = 63 then rev (x # acc) # blocks [] xs else blocks (x # acc) xs)"

definition be_bytes4 :: "int \<Rightarrow> int list" where
  "be_bytes4 v = [v div 16777216 mod 256, v div 65536 mod 256, v div 256 mod 256, v mod 256]"

definition be_bytes8 :: "int \<Rightarrow> int list" where
  "be_bytes8 v = be_bytes4 (v div 4294967296) @ be_bytes4 (v mod 4294967296)"

definition pad :: "int list \<Rightarrow> int list" where
  "pad m = (let l = int (length m) in
     m @ [128] @ replicate (nat ((119 - l mod 64) mod 64)) 0 @ be_bytes8 (8 * l))"

definition sha256 :: "int list \<Rightarrow> int list" where
  "sha256 m = concat (map be_bytes4 (foldl compress sha256_H0 (blocks [] (pad m))))"

definition hmac_sha256 :: "int list \<Rightarrow> int list \<Rightarrow> int list" where
  "hmac_sha256 key msg =
     (let k0 = (if 64 < length key then sha256 key else key);
          k = k0 @ replicate (64 - length k0) 0
      in sha256 (map (\<lambda>b. b XOR 92) k @ sha256 (map (\<lambda>b. b XOR 54) k @ msg)))"

definition hex :: "int list \<Rightarrow> string" where
  "hex bs = concat (map (\<lambda>b. [hexdigit (b div 16), hexdigit (b mod 16)]) bs)"

definition bytes_of :: "string \<Rightarrow> int list" where
  "bytes_of s = map of_char s"

text \<open>\<^verbatim>\<open>crypto.createHmac('sha256', secret).update(text).digest('hex')\<close>\<close>

definition hmac_sha256_hex :: "string \<Rightarrow> string \<Rightarrow> string" where
  "hmac_sha256_hex secret text = hex (hmac_sha256 (bytes_of secret) (bytes_of text))"

subsection \<open>Numbers\<close>

text \<open>
  A JavaScript number is an IEEE-754 double: not-a-number, the two infinities, the
  negative zero, or a finite value, given here by the rational number it denotes
  (\<open>Fin 0\<close> is the positive zero). Arithmetic computes the exact rational result and
  rounds it to the nearest double, ties to even.
\<close>

datatype jsnum = NaN | PosInf | NegInf | NegZero | Fin rat

function ipow :: "int \<Rightarrow> int \<Rightarrow> int" where
  "ipow b n = (if n \<le> 0 then 1
     else if even n then (let h = ipow b (n div 2) in h * h)
     else b * ipow b (n - 1))"
  by pat_completeness auto
termination
  by (relation "measure (\<lambda>(b, n). nat n)") auto

declare ipow.simps [simp del]

text \<open>\<open>scale b e\<close> is \<open>b\<close> to the power \<open>e\<close>, for a negative exponent too.\<close>

definition scale :: "int \<Rightarrow> int \<Rightarrow> rat" where
  "scale b e = (if 0 \<le> e then of_int (ipow b e) else 1 / of_int (ipow b (- e)))"

text \<open>For \<open>q > 0\<close>, \<open>floor_log2 q\<close> is the \<open>e\<close> with \<open>2^e \<le> q < 2^(e+1)\<close>.\<close>

definition floor_log2 :: "rat \<Rightarrow> int" where
  "floor_log2 q = (case quotient_of q of (n, d) \<Rightarrow>
     let k = bitlen n - bitlen d in if scale 2 k \<le> q then k else k - 1)"

definition round_half_even :: "rat \<Rightarrow> int" where
  "round_half_even q = (let f = \<lfloor>q\<rfloor>; d = q - of_int f in
     if d < 1 / 2 then f else if 1 / 2 < d then f + 1 else if even f then f else f + 1)"

text \<open>
  The double nearest to a magnitude \<open>q \<ge> 0\<close>: 53 significant bits, the exponent of the
  last bit not below \<open>-1074\<close> (subnormal numbers), and \<open>None\<close> when the rounded value
  reaches \<open>2^1024\<close> (overflow to infinity).
\<close>

definition round_mag :: "rat \<Rightarrow> rat option" where
  "round_mag q = (if q = 0 then Some 0 else
     let e = max (floor_log2 q - 52) (- 1074);
         m = round_half_even (q / scale 2 e)
     in if 1024 < bitlen m + e then None else Some (of_int m * scale 2 e))"

definition round_double :: "bool \<Rightarrow> rat \<Rightarrow> jsnum" where
  "round_double neg q = (case round_mag q of
       None \<Rightarrow> (if neg then NegInf else PosInf)
     | Some r \<Rightarrow> (if neg then (if r = 0 then NegZero else Fin (- r)) else Fin r))"

fun is_neg :: "jsnum \<Rightarrow> bool" where
  "is_neg NegInf = True"
| "is_neg NegZero = True"
| "is_neg (Fin q) = (q < 0)"
| "is_neg _ = False"

fun is_zero :: "jsnum \<Rightarrow> bool" where
  "is_zero NegZero = True"
| "is_zero (Fin q) = (q = 0)"
| "is_zero _ = False"

fun is_inf :: "jsnum \<Rightarrow> bool" where
  "is_inf PosInf = True"
| "is_inf NegInf = True"
| "is_inf _ = False"

fun mag :: "jsnum \<Rightarrow> rat" where
  "mag (Fin q) = \<bar>q\<bar>"
| "mag _ = 0"

text \<open>The operator \<^verbatim>\<open>*\<close> on two numbers.\<close>

definition num_mul :: "jsnum \<Rightarrow> jsnum \<Rightarrow> jsnum" where
  "num_mul a b =
     (if a = NaN \<or> b = NaN then NaN
      else if (is_inf a \<and> is_zero b) \<or> (is_zero a \<and> is_inf b) then NaN
      else let neg = (is_neg a \<noteq> is_neg b) in
        if is_inf a \<or> is_inf b then (if neg then NegInf else PosInf)
        else round_double neg (mag a * mag b))"

subsubsection \<open>Number to string\<close>

function digits :: "int \<Rightarrow> string" where
  "digits n = (if n < 10 then [char_of (48 + n)]
     else digits (n div 10) @ [char_of (48 + n mod 10)])"
  by pat_completeness auto
termination
  by (relation "measure nat") auto

declare digits.simps [simp del]

text \<open>The decimal numeral of an integer: how a number that is an integer below \<open>10^21\<close> prints.\<close>

definition dec :: "int \<Rightarrow> string" where
  "dec n = (if n < 0 then CHR ''-'' # digits (- n) else digits n)"

text \<open>For \<open>q > 0\<close>, \<open>dec_exp q\<close> is the \<open>n\<close> with \<open>10^(n-1) \<le> q < 10^n\<close>.\<close>

definition dec_exp :: "rat \<Rightarrow> int" where
  "dec_exp q = (let c = floor_log2 q * 30103 div 100000 in
     case find (\<lambda>n. scale 10 (n - 1) \<le> q \<and> q < scale 10 n) [c - 1, c, c + 1, c + 2, c + 3] of
       Some n \<Rightarrow> n | None \<Rightarrow> c + 1)"

text \<open>
  The \<open>k\<close>-digit decimals \<open>s * 10^(n'-k)\<close> next to \<open>q\<close> that read back as \<open>q\<close>, the
  closer one first (the even one on a tie).
\<close>

definition candidates :: "rat \<Rightarrow> int \<Rightarrow> int \<Rightarrow> (int \<times> int) list" where
  "candidates q n k = (let x = q * scale 10 (k - n); lo = \<lfloor>x\<rfloor>; hi = lo + 1;
       up = (if hi < ipow 10 k then (hi, n) else (ipow 10 (k - 1), n + 1));
       reads = (\<lambda>(s, n'). round_mag (of_int s * scale 10 (n' - k)) = Some q);
       lo_first = (x - of_int lo < of_int hi - x \<or> (x - of_int lo = of_int hi - x \<and> even lo))
     in filter reads (if lo_first then [(lo, n), up] else [up, (lo, n)]))"

text \<open>Number::toString, step 5: the shortest digit string \<open>s\<close> (of \<open>k\<close> digits) and its exponent \<open>n\<close>.\<close>

definition shortest :: "rat \<Rightarrow> (int \<times> int \<times> int)" where
  "shortest q = (let n = dec_exp q in
     case find (\<lambda>k. candidates q n k \<noteq> [])
            [1, 2, 3, 4, 5, 6, 7, 8, 9, 10, 11, 12, 13, 14, 15, 16, 17] of
       Some k \<Rightarrow> (case hd (candidates q n k) of (s, n') \<Rightarrow> (s, k, n'))
     | None \<Rightarrow> (\<lfloor>q * scale 10 (17 - n)\<rfloor>, 17, n))"

definition zeros :: "int \<Rightarrow> string" where
  "zeros n = replicate (nat n) CHR ''0''"

definition pos_to_string :: "rat \<Rightarrow> string" where
  "pos_to_string q = (case shortest q of (s, k, n) \<Rightarrow>
     let ds = digits s in
       if k \<le> n \<and> n \<le> 21 then ds @ zeros (n - k)
       else if 0 < n \<and> n \<le> 21 then take (nat n) ds @ ''.'' @ drop (nat n) ds
       else if - 6 < n \<and> n \<le> 0 then ''0.'' @ zeros (- n) @ ds
       else (if k = 1 then ds else take 1 ds @ ''.'' @ drop 1 ds)
            @ ''e'' @ (if 0 \<le> n - 1 then ''+'' else ''-'') @ digits \<bar>n - 1\<bar>)"

fun num_to_string :: "jsnum \<Rightarrow> string" where
  "num_to_string NaN = ''NaN''"
| "num_to_string PosInf = ''Infinity''"
| "num_to_string NegInf = ''-Infinity''"
| "num_to_string NegZero = ''0''"
| "num_to_string (Fin q) =
     (if q = 0 then ''0'' else if q < 0 then ''-'' @ pos_to_string (- q) else pos_to_string q)"

subsubsection \<open>String to number\<close>

text \<open>The string cut into the byte sequences of its code points.\<close>

function chunks :: "string \<Rightarrow> string list" where
  "chunks [] = []"
| "chunks (c # cs) = (let b = (of_char c :: int);
       n = (if 240 \<le> b then 4 else if 224 \<le> b then 3 else if 192 \<le> b then 2 else 1)
     in take n (c # cs) # chunks (drop n (c # cs)))"
  by pat_completeness auto
termination
  by (relation "measure length") auto

declare chunks.simps [simp del]

text \<open>
  WhiteSpace and LineTerminator: TAB, LF, VT, FF, CR, SP, U+00A0, U+1680, U+2000 to U+200A,
  U+2028, U+2029, U+202F, U+205F, U+3000, U+FEFF.
\<close>

definition white_space_table :: "int list list" where
  "white_space_table =
     [[9], [10], [11], [12], [13], [32], [194, 160], [225, 154, 128],
      [226, 128, 128], [226, 128, 129], [226, 128, 130], [226, 128, 131], [226, 128, 132],
      [226, 128, 133], [226, 128, 134], [226, 128, 135], [226, 128, 136], [226, 128, 137],
      [226, 128, 138], [226, 128, 168], [226, 128, 169], [226, 128, 175], [226, 129, 159],
      [227, 128, 128], [239, 187, 191]]"

definition white_space :: "string \<Rightarrow> bool" where
  "white_space u = List.member white_space_table (map of_char u)"

definition trim :: "string \<Rightarrow> string" where
  "trim s = concat (rev (dropWhile white_space (rev (dropWhile white_space (chunks s)))))"

definition exponent_part :: "string \<Rightarrow> int option" where
  "exponent_part s = (case s of
       [] \<Rightarrow> Some 0
     | c # t \<Rightarrow>
         if c = CHR ''e'' \<or> c = CHR ''E'' then
           (let neg = (take 1 t = ''-'');
                ds = (if take 1 t = ''-'' \<or> take 1 t = ''+'' then drop 1 t else t)
            in if ds \<noteq> [] \<and> list_all is_digit ds
               then Some (if neg then - radix_value 10 ds else radix_value 10 ds) else None)
         else None)"

text \<open>StrDecimalLiteral: sign, then \<^verbatim>\<open>Infinity\<close> or digits with an optional fraction and exponent.\<close>

definition decimal_literal :: "string \<Rightarrow> jsnum" where
  "decimal_literal s =
     (let neg = (take 1 s = ''-'');
          r = (if take 1 s = ''-'' \<or> take 1 s = ''+'' then drop 1 s else s)
      in if r = ''Infinity'' then (if neg then NegInf else PosInf)
         else
           let ip = takeWhile is_digit r; r1 = dropWhile is_digit r;
               fp = (if take 1 r1 = ''.'' then takeWhile is_digit (drop 1 r1) else []);
               r2 = (if take 1 r1 = ''.'' then dropWhile is_digit (drop 1 r1) else r1)
           in if ip = [] \<and> fp = [] then NaN
              else (case exponent_part r2 of
                      None \<Rightarrow> NaN
                    | Some ex \<Rightarrow>
                        round_double neg
                          (of_int (radix_value 10 (ip @ fp)) * scale 10 (ex - int (length fp)))))"

text \<open>NonDecimalIntegerLiteral: \<^verbatim>\<open>0x\<close>, \<^verbatim>\<open>0o\<close> or \<^verbatim>\<open>0b\<close> and digits; \<open>None\<close> without such a prefix.\<close>

definition radix_literal :: "string \<Rightarrow> jsnum option" where
  "radix_literal s =
     (let p = take 2 s; ds = drop 2 s;
          b = (if p = ''0x'' \<or> p = ''0X'' then 16 else if p = ''0o'' \<or> p = ''0O'' then 8
               else if p = ''0b'' \<or> p = ''0B'' then 2 else 0)
      in if b = 0 then None
         else if ds \<noteq> [] \<and> list_all (\<lambda>c. digit_val c < b) ds
         then Some (round_double False (of_int (radix_value b ds))) else Some NaN)"

definition string_to_number :: "string \<Rightarrow> jsnum" where
  "string_to_number s =
     (let t = trim s in
        if t = [] then Fin 0
        else (case radix_literal t of Some v \<Rightarrow> v | None \<Rightarrow> decimal_literal t))"

subsection \<open>Values\<close>

text \<open>
  The values a handler meets: what \<^verbatim>\<open>JSON.parse\<close> and the query-string parser build,
  and \<^verbatim>\<open>undefined\<close>. An object is the list of its own properties in enumeration
  order, with distinct keys.
\<close>

datatype jsval =
    JUndefined
  | JNull
  | JBool bool
  | JNum jsnum
  | JStr string
  | JArr "jsval list"
  | JObj "(string \<times> jsval) list"

text \<open>
  \<^verbatim>\<open>v.k\<close> on a value that is neither \<^verbatim>\<open>null\<close> nor \<^verbatim>\<open>undefined\<close> (not
  \<open>nullish\<close>). The handlers
  read the names \<^verbatim>\<open>email\<close>, \<^verbatim>\<open>amount\<close>, \<^verbatim>\<open>currency\<close>, \<^verbatim>\<open>reference\<close>,
  \<^verbatim>\<open>trxref\<close>, \<^verbatim>\<open>page\<close>, \<^verbatim>\<open>perPage\<close>, \<^verbatim>\<open>data\<close>, \<^verbatim>\<open>meta\<close>, \<^verbatim>\<open>message\<close>
  and \<^verbatim>\<open>event\<close>, none of which an array, a string, a number or a boolean has, and none
  of which is inherited from \<^verbatim>\<open>Object.prototype\<close>.
\<close>

fun get :: "jsval \<Rightarrow> string \<Rightarrow> jsval" where
  "get (JObj kvs) k = (case map_of kvs k of Some v \<Rightarrow> v | None \<Rightarrow> JUndefined)"
| "get _ k = JUndefined"

definition nullish :: "jsval \<Rightarrow> bool" where
  "nullish v = (v = JUndefined \<or> v = JNull)"

text \<open>ToBoolean: what \<^verbatim>\<open>!v\<close> and \<^verbatim>\<open>v || w\<close> test.\<close>

fun truthy :: "jsval \<Rightarrow> bool" where
  "truthy JUndefined = False"
| "truthy JNull = False"
| "truthy (JBool b) = b"
| "truthy (JNum n) = (n \<noteq> NaN \<and> \<not> is_zero n)"
| "truthy (JStr s) = (s \<noteq> [])"
| "truthy (JArr xs) = True"
| "truthy (JObj kvs) = True"

text \<open>\<^verbatim>\<open>a || b\<close>\<close>

definition or_else :: "jsval \<Rightarrow> jsval \<Rightarrow> jsval" where
  "or_else a b = (if truthy a then a else b)"

fun join :: "string \<Rightarrow> string list \<Rightarrow> string" where
  "join sep [] = []"
| "join sep [x] = x"
| "join sep (x # y # ys) = x @ sep @ join sep (y # ys)"

text \<open>ToString: what a template literal \<^verbatim>\<open>`${v}`\<close> inserts.\<close>

fun to_string :: "jsval \<Rightarrow> string" where
  "to_string JUndefined = ''undefined''"
| "to_string JNull = ''null''"
| "to_string (JBool b) = (if b then ''true'' else ''false'')"
| "to_string (JNum n) = num_to_string n"
| "to_string (JStr s) = s"
| "to_string (JArr xs) =
     join '','' (map (\<lambda>x. if x = JUndefined \<or> x = JNull then [] else to_string x) xs)"
| "to_string (JObj kvs) = ''[object Object]''"

text \<open>ToNumber; an array or an object is first turned into its string.\<close>

fun to_number :: "jsval \<Rightarrow> jsnum" where
  "to_number JUndefined = NaN"
| "to_number JNull = Fin 0"
| "to_number (JBool b) = (if b then Fin 1 else Fin 0)"
| "to_number (JNum n) = n"
| "to_number (JStr s) = string_to_number s"
| "to_number (JArr xs) = string_to_number (to_string (JArr xs))"
| "to_number (JObj kvs) = string_to_number (to_string (JObj kvs))"

text \<open>\<^verbatim>\<open>a * b\<close>\<close>

definition times :: "jsval \<Rightarrow> jsval \<Rightarrow> jsval" where
  "times a b = JNum (num_mul (to_number a) (to_number b))"

subsubsection \<open>\<^verbatim>\<open>JSON.stringify\<close>\<close>

definition json_escape :: "char \<Rightarrow> string" where
  "json_escape c = (let n = (of_char c :: int) in
     if n = 34 then [CHR 0x5C, c]
     else if n = 92 then [c, c]
     else if n = 8 then [CHR 0x5C, CHR ''b'']
     else if n = 9 then [CHR 0x5C, CHR ''t'']
     else if n = 10 then [CHR 0x5C, CHR ''n'']
     else if n = 12 then [CHR 0x5C, CHR ''f'']
     else if n = 13 then [CHR 0x5C, CHR ''r'']
     else if n < 32 then CHR 0x5C # ''u00'' @ [hexdigit (n div 16), hexdigit (n mod 16)]
     else [c])"

definition quote :: "string \<Rightarrow> string" where
  "quote s = CHR 0x22 # concat (map json_escape s) @ [CHR 0x22]"

text \<open>
  \<open>None\<close> is the result \<^verbatim>\<open>undefined\<close>. A property whose value is \<^verbatim>\<open>undefined\<close> is left
  out; in an array it prints as \<^verbatim>\<open>null\<close>, as a number that is not finite does.
\<close>

fun JSON_stringify :: "jsval \<Rightarrow> string option" where
  "JSON_stringify JUndefined = None"
| "JSON_stringify JNull = Some ''null''"
| "JSON_stringify (JBool b) = Some (if b then ''true'' else ''false'')"
| "JSON_stringify (JNum n) =
     Some (if n = NaN \<or> is_inf n then ''null'' else num_to_string n)"
| "JSON_stringify (JStr s) = Some (quote s)"
| "JSON_stringify (JArr xs) =
     Some (''['' @ join '',''
       (map (\<lambda>x. case JSON_stringify x of None \<Rightarrow> ''null'' | Some t \<Rightarrow> t) xs) @ '']'')"
| "JSON_stringify (JObj kvs) =
     Some (''{'' @ join '',''
       (concat (map (\<lambda>(k, v). case JSON_stringify v of
                                None \<Rightarrow> [] | Some t \<Rightarrow> [quote k @ '':'' @ t]) kvs)) @ ''}'')"

section \<open>The handlers of \<^verbatim>\<open>server.js\<close>\<close>

subsection \<open>Requests, responses and the calls to the processor\<close>

text \<open>
  What a handler reads from Express's \<^verbatim>\<open>req\<close>. \<open>body\<close> is \<^verbatim>\<open>req.body\<close>, the value
  that \<^verbatim>\<open>express.json()\<close> or \<^verbatim>\<open>express.urlencoded()\<close> parsed out of the request (an
  object or an array). \<open>raw_body\<close> is the byte sequence that was parsed; it is part of
  the HTTP request but of nothing a handler can read, since the server keeps no copy
  of it. \<open>host\<close> is \<^verbatim>\<open>req.get('host')\<close>, \<open>reference_param\<close> is
  \<^verbatim>\<open>req.params.reference\<close>, \<open>query\<close> is \<^verbatim>\<open>req.query\<close> and \<open>signature\<close> is
  \<^verbatim>\<open>req.headers['x-paystack-signature']\<close>.
\<close>

record request =
  protocol :: string
  host :: "string option"
  raw_body :: string
  body :: jsval
  reference_param :: string
  query :: "(string \<times> jsval) list"
  signature :: "string option"

text \<open>\<^verbatim>\<open>Date.now()\<close> and \<^verbatim>\<open>Math.random().toString(36)\<close>, as one request finds them.\<close>

record env =
  date_now :: int
  random36 :: string

text \<open>\<^verbatim>\<open>res.json(v)\<close>, \<^verbatim>\<open>res.send(text)\<close> and \<^verbatim>\<open>res.redirect(url)\<close>.\<close>

datatype reply = Json jsval | Text string | Redirect string

record http_response =
  status :: int
  reply :: reply

datatype http_method = GET | POST

record outbound =
  verb :: http_method
  url :: string
  payload :: jsval
  headers :: "(string \<times> string) list"

text \<open>
  A thrown value: \<open>response_data\<close> is \<^verbatim>\<open>error.response.data\<close> when the error has a
  \<^verbatim>\<open>response\<close> (the processor answered with a status outside 2xx), and \<open>message\<close> is
  \<^verbatim>\<open>error.message\<close>.
\<close>

record js_error =
  response_data :: "jsval option"
  message :: string

text \<open>
  The promise of \<^verbatim>\<open>axios.get\<close> or \<^verbatim>\<open>axios.post\<close> either resolves, with
  \<^verbatim>\<open>response.data\<close>, or rejects.
\<close>

datatype upstream_result = Resolved jsval | Rejected js_error

record outcome =
  response :: http_response
  calls :: "outbound list"
  console :: "(string \<times> jsval) list"

definition TypeError :: "string \<Rightarrow> js_error" where
  "TypeError m = \<lparr>response_data = None, message = m\<rparr>"

text \<open>\<^verbatim>\<open>v.k\<close>, which throws on \<^verbatim>\<open>null\<close> and \<^verbatim>\<open>undefined\<close>.\<close>

definition read_property :: "jsval \<Rightarrow> string \<Rightarrow> js_error + jsval" where
  "read_property v k =
     (if nullish v
      then Inl (TypeError (''Cannot read properties of '' @ to_string v @ '' (reading ''
                           @ [CHR 0x27] @ k @ [CHR 0x27] @ '')''))
      else Inr (get v k))"

text \<open>\<^verbatim>\<open>v?.k\<close>\<close>

definition optional_property :: "jsval \<Rightarrow> string \<Rightarrow> jsval" where
  "optional_property v k = (if nullish v then JUndefined else get v k)"

definition auth_headers :: "string \<Rightarrow> (string \<times> string) list" where
  "auth_headers PAYSTACK_SECRET_KEY =
     [(''Authorization'', ''Bearer '' @ PAYSTACK_SECRET_KEY),
      (''Content-Type'', ''application/json'')]"

subsection \<open>The \<^verbatim>\<open>catch\<close> block of the three proxy endpoints\<close>

text \<open>\<^verbatim>\<open>error.response?.data\<close> and \<^verbatim>\<open>error.response?.data?.message\<close>\<close>

definition error_data :: "js_error \<Rightarrow> jsval" where
  "error_data e = (case response_data e of None \<Rightarrow> JUndefined | Some d \<Rightarrow> d)"

definition processor_message :: "js_error \<Rightarrow> jsval" where
  "processor_message e = optional_property (error_data e) ''message''"

text \<open>\<^verbatim>\<open>res.status(500).json({status: false, message: text, error: \<dots>})\<close>\<close>

definition error_response :: "string \<Rightarrow> js_error \<Rightarrow> http_response" where
  "error_response text e =
     \<lparr>status = 500,
      reply = Json (JObj [(''status'', JBool False),
                          (''message'', JStr text),
                          (''error'', or_else (processor_message e) (JStr (message e)))])\<rparr>"

definition failure :: "string \<Rightarrow> string \<Rightarrow> outbound list \<Rightarrow> js_error \<Rightarrow> outcome" where
  "failure label text cs e =
     \<lparr>response = error_response text e,
      calls = cs,
      console = [(label, or_else (error_data e) (JStr (message e)))]\<rparr>"

text \<open>
  What the three \<^verbatim>\<open>try\<close> blocks do with the promise: \<^verbatim>\<open>response.data.data\<close> is
  read from a resolved one, and a rejection is thrown. \<open>extra\<close> is the rest of the
  object given to \<^verbatim>\<open>res.json\<close>.
\<close>

definition relay ::
    "string \<Rightarrow> string \<Rightarrow> (outbound \<Rightarrow> upstream_result) \<Rightarrow> outbound
       \<Rightarrow> (jsval \<Rightarrow> (string \<times> jsval) list) \<Rightarrow> outcome" where
  "relay label text axios call extra =
     (case axios call of
        Rejected err \<Rightarrow> failure label text [call] err
      | Resolved d \<Rightarrow>
          (case read_property d ''data'' of
             Inl err \<Rightarrow> failure label text [call] err
           | Inr v \<Rightarrow>
               \<lparr>response = \<lparr>status = 200,
                             reply = Json (JObj ([(''status'', JBool True), (''data'', v)]
                                                 @ extra d))\<rparr>,
                calls = [call], console = []\<rparr>))"

subsection \<open>\<^verbatim>\<open>POST /api/initialize-payment\<close>\<close>

text \<open>\<^verbatim>\<open>s.substr(start, len)\<close>\<close>

definition substr :: "nat \<Rightarrow> nat \<Rightarrow> string \<Rightarrow> string" where
  "substr start len s = take len (drop start s)"

text \<open>\<^verbatim>\<open>`ref_${Date.now()}_${Math.random().toString(36).substr(2, 9)}`\<close>\<close>

definition generated_reference :: "env \<Rightarrow> string" where
  "generated_reference e = ''ref_'' @ dec (date_now e) @ ''_'' @ substr 2 9 (random36 e)"

definition validation_failure :: outcome where
  "validation_failure =
     \<lparr>response = \<lparr>status = 400,
                   reply = Json (JObj [(''status'', JBool False),
                                       (''message'', JStr ''Email and amount are required'')])\<rparr>,
      calls = [], console = []\<rparr>"

text \<open>The object handed to \<^verbatim>\<open>axios.post\<close>.\<close>

definition paymentData :: "env \<Rightarrow> request \<Rightarrow> jsval" where
  "paymentData e req =
     (let email = get (body req) ''email'';
          amount = get (body req) ''amount'';
          currency = (case get (body req) ''currency'' of JUndefined \<Rightarrow> JStr ''NGN'' | c \<Rightarrow> c);
          reference = get (body req) ''reference''
      in JObj [(''email'', email),
               (''amount'', times amount (JNum (Fin 100))),
               (''currency'', currency),
               (''reference'', or_else reference (JStr (generated_reference e))),
               (''callback_url'',
                  JStr (protocol req @ ''://''
                        @ (case host req of None \<Rightarrow> ''undefined'' | Some h \<Rightarrow> h)
                        @ ''/payment-callback''))])"

definition initialize_call :: "string \<Rightarrow> env \<Rightarrow> request \<Rightarrow> outbound" where
  "initialize_call PAYSTACK_SECRET_KEY e req =
     \<lparr>verb = POST,
      url = ''https://api.paystack.co/transaction/initialize'',
      payload = paymentData e req,
      headers = auth_headers PAYSTACK_SECRET_KEY\<rparr>"

definition initialize_payment ::
    "string \<Rightarrow> env \<Rightarrow> (outbound \<Rightarrow> upstream_result) \<Rightarrow> request \<Rightarrow> outcome" where
  "initialize_payment PAYSTACK_SECRET_KEY e axios req =
     (let label = ''Initialize payment error:''; text = ''Failed to initialize payment'' in
      if nullish (body req)
      then failure label text []
             (TypeError (''Cannot destructure property '' @ [CHR 0x27] @ ''email''
                @ [CHR 0x27] @ '' of '' @ [CHR 0x27] @ ''req.body''
                @ [CHR 0x27] @ '' as it is '' @ to_string (body req) @ ''.''))
      else if \<not> truthy (get (body req) ''email'') \<or> \<not> truthy (get (body req) ''amount'')
      then validation_failure
      else relay label text axios (initialize_call PAYSTACK_SECRET_KEY e req) (\<lambda>d. []))"

subsection \<open>\<^verbatim>\<open>GET /api/verify-payment/:reference\<close>\<close>



subsection \<open>\<^verbatim>\<open>GET /api/transactions\<close>\<close>

text \<open>\<^verbatim>\<open>`https://api.paystack.co/transaction?page=${page}&perPage=${perPage}`\<close>\<close>

definition transactions_url :: "request \<Rightarrow> string" where
  "transactions_url req =
     (let page = (case get (JObj (query req)) ''page'' of JUndefined \<Rightarrow> JNum (Fin 1) | p \<Rightarrow> p);
          perPage = (case get (JObj (query req)) ''perPage'' of
                       JUndefined \<Rightarrow> JNum (Fin 10) | p \<Rightarrow> p)
      in ''https://api.paystack.co/transaction?page='' @ to_string page
         @ ''&perPage='' @ to_string perPage)"

definition transactions_call :: "string \<Rightarrow> request \<Rightarrow> outbound" where
  "transactions_call PAYSTACK_SECRET_KEY req =
     \<lparr>verb = GET,
      url = transactions_url req,
      payload = JUndefined,
      headers = auth_headers PAYSTACK_SECRET_KEY\<rparr>"

definition transactions ::
    "string \<Rightarrow> (outbound \<Rightarrow> upstream_result) \<Rightarrow> request \<Rightarrow> outcome" where
  "transactions PAYSTACK_SECRET_KEY axios req =
     relay ''Get transactions error:'' ''Failed to fetch transactions'' axios
       (transactions_call PAYSTACK_SECRET_KEY req) (\<lambda>d. [(''meta'', get d ''meta'')])"

subsection \<open>\<^verbatim>\<open>POST /api/webhook\<close>\<close>

text \<open>
  The three arms of \<^verbatim>\<open>switch (event.event)\<close>; each one logs a line and does nothing
  else.
\<close>

datatype handler = Charge_success | Charge_failed | Unhandled

definition dispatch :: "jsval \<Rightarrow> handler" where
  "dispatch tag =
     (if tag = JStr ''charge.success'' then Charge_success
      else if tag = JStr ''charge.failed'' then Charge_failed
      else Unhandled)"

fun log_line :: "handler \<Rightarrow> jsval \<Rightarrow> string \<times> jsval" where
  "log_line Charge_success event = (''Payment successful:'', get event ''data'')"
| "log_line Charge_failed event = (''Payment failed:'', get event ''data'')"
| "log_line Unhandled event = (''Unhandled event:'', get event ''event'')"

record webhook_outcome = outcome +
  handled :: "handler option"

definition acknowledged :: "handler \<Rightarrow> jsval \<Rightarrow> webhook_outcome" where
  "acknowledged h event =
     \<lparr>response = \<lparr>status = 200, reply = Text ''Webhook received''\<rparr>,
      calls = [], console = [log_line h event], handled = Some h\<rparr>"

definition invalid_signature :: webhook_outcome where
  "invalid_signature =
     \<lparr>response = \<lparr>status = 400, reply = Text ''Invalid signature''\<rparr>,
      calls = [], console = [], handled = None\<rparr>"

text \<open>
  This handler has no \<^verbatim>\<open>try\<close>: what it throws (\<open>Inl\<close>) leaves the handler, and
  Express answers for it.
\<close>

definition webhook :: "string \<Rightarrow> request \<Rightarrow> js_error + webhook_outcome" where
  "webhook secret req =
     (case JSON_stringify (body req) of
        None \<Rightarrow>
          Inl (TypeError (''The '' @ [CHR 0x22] @ ''data'' @ [CHR 0x22]
                 @ '' argument must be of type string or an instance of Buffer, TypedArray, ''
                 @ ''or DataView. Received undefined''))
      | Some text \<Rightarrow>
          let hash = hmac_sha256_hex secret text in
          if Some hash = signature req
          then (case read_property (body req) ''event'' of
                  Inl err \<Rightarrow> Inl err
                | Inr tag \<Rightarrow> Inr (acknowledged (dispatch tag) (body req)))
          else Inr invalid_signature)"

subsection \<open>\<^verbatim>\<open>GET /payment-callback\<close>\<close>

definition payment_callback :: "request \<Rightarrow> outcome" where
  "payment_callback req =
     (let reference = get (JObj (query req)) ''reference'';
          trxref = get (JObj (query req)) ''trxref''
      in \<lparr>response = \<lparr>status = 302,
                       reply = Redirect (''/?reference='' @ to_string (or_else reference trxref)
                                         @ ''&status=success'')\<rparr>,
          calls = [], console = []\<rparr>)"

subsection \<open>What a \<^verbatim>\<open>try\<close> block throws\<close>


subsection \<open>Reading a URL\<close>

fun starts_with :: "string \<Rightarrow> string \<Rightarrow> bool" where
  "starts_with s [] = True"
| "starts_with [] (y # ys) = False"
| "starts_with (x # xs) (y # ys) = (x = y \<and> starts_with xs ys)"

text \<open>\<^verbatim>\<open>s.includes(t)\<close>\<close>

fun contains :: "string \<Rightarrow> string \<Rightarrow> bool" where
  "contains [] t = (t = [])"
| "contains (c # cs) t = (starts_with (c # cs) t \<or> contains cs t)"

text \<open>
  The parameters a server reads in a URL: what follows the first \<^verbatim>\<open>?\<close>, cut at every
  \<^verbatim>\<open>&\<close>, each piece cut at its first \<^verbatim>\<open>=\<close>.
\<close>

definition query_pairs :: "string \<Rightarrow> (string \<times> string) list" where
  "query_pairs u =
     map (\<lambda>p. (takeWhile (\<lambda>c. c \<noteq> CHR ''='') p, drop 1 (dropWhile (\<lambda>c. c \<noteq> CHR ''='') p)))
       (split_on CHR ''&'' (drop 1 (dropWhile (\<lambda>c. c \<noteq> CHR ''?'') u)))"

subsection \<open>Requests to try the handlers on\<close>

text \<open>A request with nothing in it; the examples below fill in the fields they need.\<close>

definition blank :: request where
  "blank = \<lparr>protocol = ''https'', host = Some ''shop.example'', raw_body = [],
            body = JObj [], reference_param = [], query = [], signature = None\<rparr>"

text \<open>A webhook event of a kind the handler does not know, signed over its compact JSON text.\<close>

definition unknown_event :: request where
  "unknown_event =
     blank\<lparr>raw_body := ''{\"event\":\"totally.unknown\"}'',
           body := JObj [(''event'', JStr ''totally.unknown'')],
           signature := Some (hmac_sha256_hex ''sk_test_1'' ''{\"event\":\"totally.unknown\"}'')\<rparr>"

text \<open>A webhook event that arrives without the signature header.\<close>

definition unsigned_event :: request where
  "unsigned_event =
     blank\<lparr>raw_body := ''{\"event\":\"charge.success\"}'',
           body := JObj [(''event'', JStr ''charge.success'')]\<rparr>"

text \<open>
  A webhook event whose sender wrote a space after the colon and signed the bytes it
  sent.
\<close>

definition spaced_event :: request where
  "spaced_event =
     blank\<lparr>raw_body := ''{\"event\": \"charge.success\"}'',
           body := JObj [(''event'', JStr ''charge.success'')],
           signature := Some (hmac_sha256_hex ''sk_test_1'' ''{\"event\": \"charge.success\"}'')\<rparr>"

text \<open>
  A webhook event that was signed as \<^verbatim>\<open>{"event":"charge.success"}\<close> and whose body
  was changed on the way: a space was put in. The signature header is the original one.
\<close>

definition reformatted_event :: request where
  "reformatted_event =
     blank\<lparr>raw_body := ''{\"event\": \"charge.success\"}'',
           body := JObj [(''event'', JStr ''charge.success'')],
           signature := Some (hmac_sha256_hex ''sk_test_1'' ''{\"event\":\"charge.success\"}'')\<rparr>"

text \<open>Requests to initialize a payment.\<close>

definition missing_amount :: request where
  "missing_amount = blank\<lparr>body := JObj [(''email'', JStr ''ada@example.com'')]\<rparr>"






text \<open>
  An amount of zero in a form post: \<^verbatim>\<open>express.urlencoded\<close> delivers every field as a
  string, so the amount is \<^verbatim>\<open>"0"\<close>.
\<close>

definition zero_as_text :: request where
  "zero_as_text = blank\<lparr>body := JObj [(''email'', JStr ''ada@example.com''),
                                       (''amount'', JStr ''0'')]\<rparr>"

text \<open>
  The clock and the random number of a request: \<^verbatim>\<open>Math.random()\<close> returned \<open>0.5\<close>,
  which prints as \<^verbatim>\<open>0.i\<close> in base 36.
\<close>

definition clock :: env where
  "clock = \<lparr>date_now = 1700000000000, random36 = ''0.i''\<rparr>"






definition accepted :: "outbound \<Rightarrow> upstream_result" where
  "accepted call =
     Resolved (JObj [(''status'', JBool True),
                     (''data'', JObj [(''reference'', JStr ''ref_1'')])])"


definition unverified_callback :: request where
  "unverified_callback = blank\<lparr>query := [(''reference'', JStr ''abc123'')]\<rparr>"

definition two_references :: request where
  "two_references =
     blank\<lparr>query := [(''reference'', JStr ''abc''), (''trxref'', JStr ''xyz'')]\<rparr>"

definition injected_page :: request where
  "injected_page = blank\<lparr>query := [(''page'', JStr ''1&status=success'')]\<rparr>"

section \<open>Properties\<close>

subsection \<open>The digest\<close>

text \<open>The first example of FIPS 180-4 and test case 2 of RFC 4231.\<close>

lemma sha256_abc:
  "hex (sha256 (bytes_of ''abc'')) =
     ''ba7816bf8f01cfea414140de5dae2223b00361a396177a9cb410ff61f20015ad''"
  by code_simp

lemma hmac_sha256_rfc4231_2:
  "hmac_sha256_hex ''Jefe'' ''what do ya want for nothing?'' =
     ''5bdcc146bf60754e6a042426089575c75a003f089d2739839dec58b964ec3843''"
  by code_simp

text \<open>The digests of the two texts of the event used below, under the key \<^verbatim>\<open>sk_test_1\<close>.\<close>

lemma hmac_compact:
  "hmac_sha256_hex ''sk_test_1'' ''{\"event\":\"charge.success\"}'' =
     ''302437e78742899b4ce072f4e229ea2eb2da48f01b19ed6a6c2884ea5e3699e9''"
  by code_simp

lemma hmac_spaced:
  "hmac_sha256_hex ''sk_test_1'' ''{\"event\": \"charge.success\"}'' =
     ''0ee611537fd3b399d57504461d090ce33322fc0a49f6ee6267ccc7911d0bb995''"
  by code_simp

subsection \<open>Rounding\<close>

text \<open>
  \<open>ipow\<close> is the power, \<open>floor_log2\<close> brackets its argument between two powers of
  two, and the rounded mantissa is within one half of the exact one.
\<close>

lemma ipow_power: "ipow b n = b ^ nat n"
proof (induction b n rule: ipow.induct)
  case (1 b n)
  show ?case
  proof (cases "n \<le> 0")
    case True
    then show ?thesis by (subst ipow.simps) simp
  next
    case pos: False
    show ?thesis
    proof (cases "even n")
      case True
      have h: "ipow b (n div 2) = b ^ nat (n div 2)"
        using "1.IH"(1) pos True by blast
      from True pos have "nat n = nat (n div 2) + nat (n div 2)" by (auto elim!: evenE)
      then have "b ^ nat n = b ^ nat (n div 2) * b ^ nat (n div 2)"
        by (simp only: power_add)
      moreover have "ipow b n = ipow b (n div 2) * ipow b (n div 2)"
        using pos True by (subst ipow.simps) (simp add: Let_def)
      ultimately show ?thesis by (simp only: h)
    next
      case False
      have h: "ipow b (n - 1) = b ^ nat (n - 1)"
        using "1.IH"(2) pos False by blast
      from pos have "nat n = Suc (nat (n - 1))" by auto
      then have "b ^ nat n = b * b ^ nat (n - 1)" by (simp only: power_Suc)
      moreover have "ipow b n = b * ipow b (n - 1)"
        using pos False by (subst ipow.simps) simp
      ultimately show ?thesis by (simp only: h)
    qed
  qed
qed

lemma scale_powi: "scale 2 e = 2 powi e"
proof (cases "0 \<le> e")
  case True
  then show ?thesis by (simp add: scale_def ipow_power power_int_def)
next
  case False
  then have "scale 2 e = 1 / 2 ^ nat (- e)"
    by (simp add: scale_def ipow_power)
  also have "\<dots> = inverse 2 ^ nat (- e)"
    by (simp add: inverse_eq_divide power_one_over)
  also have "\<dots> = 2 powi e"
    using False by (simp only: power_int_def if_False)
  finally show ?thesis .
qed

lemma scale_pos: "0 < scale 2 e"
  by (simp add: scale_powi)

lemma bitlen_pos: "0 < n \<Longrightarrow> 1 \<le> bitlen n"
  by (simp add: bitlen_alt_def)

lemma floor_log2_le:
  assumes "0 < q"
  shows "scale 2 (floor_log2 q) \<le> q"
proof -
  obtain n d where nd: "quotient_of q = (n, d)" by (cases "quotient_of q")
  then have d: "0 < d" and q: "q = of_int n / of_int d"
    using quotient_of_denom_pos quotient_of_div by blast+
  with assms have n: "0 < n" by (simp add: zero_less_divide_iff)
  define k where "k = bitlen n - bitlen d"
  have "scale 2 (k - 1) \<le> q"
  proof -
    have bn: "(2::int) ^ nat (bitlen n - 1) \<le> n" using bitlen_bounds [OF n] by simp
    have bd: "d < 2 ^ nat (bitlen d)" using bitlen_bounds [OF d] by simp
    have n1: "0 \<le> bitlen n - 1" using bitlen_pos [OF n] by simp
    have d1: "0 \<le> bitlen d" by (rule bitlen_nonneg)
    have "k - 1 = (bitlen n - 1) - bitlen d" by (simp add: k_def)
    then have "(2::rat) powi (k - 1) = 2 powi (bitlen n - 1) / 2 powi (bitlen d)"
      by (simp add: power_int_diff)
    also have "\<dots> = of_int (2 ^ nat (bitlen n - 1)) / of_int (2 ^ nat (bitlen d))"
      using n1 d1 by (simp only: power_int_def of_int_power of_int_numeral if_True)
    also have "\<dots> \<le> of_int n / of_int d"
    proof -
      have n0: "(0::rat) \<le> of_int n" using n by simp
      have bn': "(of_int (2 ^ nat (bitlen n - 1)) :: rat) \<le> of_int n"
        using bn by (simp only: of_int_le_iff)
      have d0: "(0::rat) < of_int d" using d by simp
      have "d \<le> 2 ^ nat (bitlen d)" using bd by simp
      then have bd': "(of_int d :: rat) \<le> of_int (2 ^ nat (bitlen d))"
        by (simp only: of_int_le_iff)
      from n0 bn' d0 bd' show ?thesis by (rule frac_le)
    qed
    finally show ?thesis by (simp only: scale_powi q)
  qed
  then show ?thesis
    using nd by (simp add: floor_log2_def k_def Let_def)
qed

lemma round_half_even_close: "\<bar>of_int (round_half_even x) - x\<bar> \<le> 1 / 2"
proof -
  have "of_int \<lfloor>x\<rfloor> \<le> x" "x < of_int \<lfloor>x\<rfloor> + 1" by linarith+
  then show ?thesis
    by (auto simp: round_half_even_def Let_def abs_le_iff)
qed


lemma round_mag_times_100:
  assumes "0 < q"
  shows "round_mag (q * 100) \<noteq> Some q"
proof
  assume eq: "round_mag (q * 100) = Some q"
  define r where "r = q * 100"
  define e where "e = max (floor_log2 r - 52) (- 1074)"
  define s where "s = scale 2 e"
  define m where "m = round_half_even (r / s)"
  have r: "0 < r" using assms by (simp add: r_def)
  have s: "0 < s" by (simp add: s_def scale_pos)
  from eq r have q: "q = of_int m * s"
    by (auto simp: round_mag_def Let_def r_def [symmetric] e_def [symmetric] s_def [symmetric]
        m_def [symmetric] split: if_splits)
  have "\<bar>of_int m - r / s\<bar> \<le> 1 / 2" unfolding m_def by (rule round_half_even_close)
  then have "\<bar>of_int m - r / s\<bar> * s \<le> 1 / 2 * s"
    using s by (simp only: mult_le_cancel_right_pos)
  moreover have "\<bar>of_int m - r / s\<bar> * s = \<bar>(of_int m - r / s) * s\<bar>"
    using s by (simp add: abs_mult)
  moreover have "(of_int m - r / s) * s = of_int m * s - r"
    using s by (simp add: left_diff_distrib)
  ultimately have close: "\<bar>q - r\<bar> \<le> s / 2" by (simp add: q)
  then have gap: "99 * q \<le> s / 2" by (simp add: r_def abs_le_iff)
  show False
  proof (cases "- 1074 \<le> floor_log2 r - 52")
    case True
    then have "e = floor_log2 r - 52" by (simp add: e_def)
    then have "s = 2 powi (floor_log2 r) / 2 powi 52"
      by (simp add: s_def scale_powi power_int_diff)
    moreover have "2 powi (floor_log2 r) \<le> r"
      using floor_log2_le [OF r] by (simp add: scale_powi)
    ultimately have "s \<le> r / 2 powi 52" by (simp add: divide_right_mono)
    then have "s \<le> q * 100 / 4503599627370496" by (simp add: r_def)
    with gap assms show False by simp
  next
    case False
    from q assms s have "0 < m" by (simp add: zero_less_mult_iff)
    then have "(1::rat) \<le> of_int m" by simp
    then have "1 * s \<le> of_int m * s" using s by (simp only: mult_le_cancel_right_pos)
    then have "s \<le> q" by (simp add: q)
    with gap s show False by simp
  qed
qed







text \<open>
  Multiplying by 100 never gives the number back, and it is exact on an integer as
  long as the product stays below \<open>2^53\<close>.
\<close>

lemma num_mul_100_changes:
  assumes "q \<noteq> 0"
  shows "num_mul (Fin q) (Fin 100) \<noteq> Fin q"
proof -
  have pos: "0 < \<bar>q\<bar>" using assms by simp
  have ne: "round_mag (\<bar>q\<bar> * 100) \<noteq> Some \<bar>q\<bar>" by (rule round_mag_times_100 [OF pos])
  show ?thesis
  proof (cases "round_mag (\<bar>q\<bar> * 100)")
    case None
    then show ?thesis by (simp add: num_mul_def round_double_def)
  next
    case (Some r)
    with ne have "r \<noteq> \<bar>q\<bar>" by simp
    with Some show ?thesis
      by (auto simp: num_mul_def round_double_def abs_if split: if_splits)
  qed
qed

lemma times_100_changes:
  assumes "truthy v" "v \<noteq> JNum PosInf" "v \<noteq> JNum NegInf"
  shows "times v (JNum (Fin 100)) \<noteq> v"
proof (cases v)
  case (JNum n)
  with assms show ?thesis
    by (cases n) (auto simp: times_def num_mul_100_changes)
qed (simp_all add: times_def)



text \<open>
  Values of the operations on concrete arguments. The third is the product of the
  double nearest to \<open>1.1\<close> and 100, which is not 110.
\<close>

lemma fifty_times_100: "times (JNum (Fin 50)) (JNum (Fin 100)) = JNum (Fin 5000)"
  by code_simp

lemma text_fifty_times_100: "times (JStr '' 50 '') (JNum (Fin 100)) = JNum (Fin 5000)"
  by code_simp

lemma one_point_one_times_100:
  "to_string (times (JStr ''1.1'') (JNum (Fin 100))) = ''110.00000000000001''"
  by code_simp


lemma one_point_one_reads: "string_to_number ''1.1'' = Fin (2476979795053773 / 2251799813685248)"
  by code_simp

lemma one_point_one_prints:
  "to_string (JNum (Fin (7740561859543041 / 70368744177664))) = ''110.00000000000001''"
  by code_simp


lemma text_zero_times_100: "times (JStr ''0'') (JNum (Fin 100)) = JNum (Fin 0)"
  by code_simp

lemma text_zero_reads: "string_to_number ''0'' = Fin 0"
  by code_simp

lemma stringify_example:
  "JSON_stringify (JObj [(''id'', JNum (Fin 302961)), (''paid'', JBool True),
                         (''fees'', JArr [JNum (Fin (3 / 2)), JNull, JUndefined]),
                         (''note'', JUndefined)])
     = Some ''{\"id\":302961,\"paid\":true,\"fees\":[1.5,null,null]}''"
  by code_simp




lemma clock_prints_as_dec: "to_string (JNum (Fin 1700000000000)) = dec 1700000000000"
  by code_simp

lemma pos_to_string_1: "pos_to_string 1 = ''1''"
  by code_simp

lemma pos_to_string_10: "pos_to_string 10 = ''10''"
  by code_simp

subsection \<open>Decimal numerals\<close>





lemma digits_not_empty: "digits n \<noteq> []"
  by (subst digits.simps) simp








subsection \<open>Values and calls\<close>

lemma JSON_stringify_defined: "v \<noteq> JUndefined \<Longrightarrow> \<exists>s. JSON_stringify v = Some s"
  by (cases v) simp_all

lemma not_truthy_iff:
  "\<not> truthy v \<longleftrightarrow>
     v = JUndefined \<or> v = JNull \<or> v = JBool False \<or> v = JStr [] \<or>
     v = JNum NaN \<or> v = JNum NegZero \<or> v = JNum (Fin 0)"
proof (cases v)
  case (JNum n)
  then show ?thesis by (cases n) auto
qed auto

lemma starts_with_append: "starts_with (t @ s) t"
  by (induction t) auto

lemma contains_append: "contains (p @ t @ s) t"
proof (induction p)
  case Nil
  show ?case by (cases "t @ s") (use starts_with_append [of t s] in auto)
next
  case (Cons c p)
  then show ?case by simp
qed




lemma outcomes_differ: "acknowledged h ev \<noteq> invalid_signature"
  by (simp add: acknowledged_def invalid_signature_def)

subsection \<open>The webhook\<close>

text \<open>
  C1, as the code has it. The handler never sees the bytes of the request: it hashes
  \<^verbatim>\<open>JSON.stringify(req.body)\<close>, the text written again from the parsed body. So the
  request is answered 200 exactly when the signature header is the hex HMAC-SHA256,
  under the secret, of that text, and 400 otherwise, whatever \<open>raw_body\<close> is.
\<close>

theorem webhook_accepts_reserialized:
  assumes "\<not> nullish (body req)"
  shows "(webhook secret req = Inr (acknowledged (dispatch (get (body req) ''event'')) (body req)))
           = (signature req = map_option (hmac_sha256_hex secret) (JSON_stringify (body req)))
         \<and> (webhook secret req = Inr invalid_signature)
           = (signature req \<noteq> map_option (hmac_sha256_hex secret) (JSON_stringify (body req)))
         \<and> status (response (acknowledged h ev)) = 200
         \<and> status (response invalid_signature) = 400
         \<and> webhook secret (req\<lparr>raw_body := bytes\<rparr>) = webhook secret req"
proof -
  from assms have "body req \<noteq> JUndefined" by (simp add: nullish_def)
  then obtain s where s: "JSON_stringify (body req) = Some s"
    using JSON_stringify_defined by blast
  have "webhook secret (req\<lparr>raw_body := bytes\<rparr>) = webhook secret req"
    by (simp add: webhook_def s split: sum.splits)
  with assms s show ?thesis
    by (auto simp: webhook_def read_property_def outcomes_differ acknowledged_def
        invalid_signature_def)
qed

theorem webhook_accepts_reserialized_witness:
  "\<not> nullish (body reformatted_event)
   \<and> signature reformatted_event
       = map_option (hmac_sha256_hex ''sk_test_1'') (JSON_stringify (body reformatted_event))
   \<and> webhook ''sk_test_1'' reformatted_event
       = Inr (acknowledged (dispatch (get (body reformatted_event) ''event''))
                (body reformatted_event))"
proof -
  have p: "\<not> nullish (body reformatted_event)"
    and q: "signature reformatted_event
       = map_option (hmac_sha256_hex ''sk_test_1'') (JSON_stringify (body reformatted_event))"
    by (simp_all add: reformatted_event_def blank_def nullish_def quote_def json_escape_def)
  from webhook_accepts_reserialized [OF p, of "''sk_test_1''"] p q show ?thesis by simp
qed

text \<open>
  C1, as the claim states it, fails in both directions. \<open>spaced_event\<close> carries the
  HMAC of its own raw bytes and is answered 400, because the text written again from
  the parsed body has no space. \<open>reformatted_event\<close> carries the HMAC of other bytes
  than its own (its body was changed after signing) and is answered 200.
\<close>

theorem webhook_raw_bytes_counterexample:
  "signature spaced_event = Some (hmac_sha256_hex ''sk_test_1'' (raw_body spaced_event))
   \<and> webhook ''sk_test_1'' spaced_event = Inr invalid_signature
   \<and> status (response invalid_signature) = 400
   \<and> raw_body reformatted_event \<noteq> ''{\"event\":\"charge.success\"}''
   \<and> signature reformatted_event
       = Some (hmac_sha256_hex ''sk_test_1'' ''{\"event\":\"charge.success\"}'')
   \<and> signature reformatted_event
       \<noteq> Some (hmac_sha256_hex ''sk_test_1'' (raw_body reformatted_event))
   \<and> webhook ''sk_test_1'' reformatted_event
       = Inr (acknowledged Charge_success (body reformatted_event))
   \<and> status (response (acknowledged Charge_success (body reformatted_event))) = 200"
proof -
  have differ: "hmac_sha256_hex ''sk_test_1'' ''{\"event\": \"charge.success\"}''
             \<noteq> hmac_sha256_hex ''sk_test_1'' ''{\"event\":\"charge.success\"}''"
    by (simp only: hmac_compact hmac_spaced) simp
  have a: "webhook ''sk_test_1'' spaced_event = Inr invalid_signature"
    using differ
    by (simp add: webhook_def spaced_event_def blank_def quote_def json_escape_def
        read_property_def nullish_def)
  have b: "webhook ''sk_test_1'' reformatted_event
             = Inr (acknowledged Charge_success (body reformatted_event))"
    by (simp add: webhook_def reformatted_event_def blank_def quote_def json_escape_def
        read_property_def nullish_def dispatch_def)
  have c: "signature reformatted_event
             \<noteq> Some (hmac_sha256_hex ''sk_test_1'' (raw_body reformatted_event))"
    using differ by (simp add: reformatted_event_def blank_def)
  from a b c show ?thesis
    by (simp add: spaced_event_def reformatted_event_def blank_def acknowledged_def
        invalid_signature_def)
qed

text \<open>
  C2. When the digest that the handler computes is not the value of the signature
  header, or the header is absent (\<open>signature req = None\<close>), the answer is 400 with the
  plain text \<^verbatim>\<open>Invalid signature\<close>, no arm of the \<^verbatim>\<open>switch\<close> is reached and
  nothing is logged. The digest exists whenever \<^verbatim>\<open>req.body\<close> is not \<^verbatim>\<open>undefined\<close>.
\<close>

theorem webhook_mismatch_rejected:
  assumes "body req \<noteq> JUndefined"
    and "signature req \<noteq> map_option (hmac_sha256_hex secret) (JSON_stringify (body req))"
  shows "webhook secret req = Inr invalid_signature
         \<and> response invalid_signature = \<lparr>status = 400, reply = Text ''Invalid signature''\<rparr>
         \<and> handled invalid_signature = None \<and> console invalid_signature = []"
proof -
  obtain s where s: "JSON_stringify (body req) = Some s"
    using assms(1) JSON_stringify_defined by blast
  with assms(2) have "Some (hmac_sha256_hex secret s) \<noteq> signature req" by auto
  with s show ?thesis by (simp add: webhook_def invalid_signature_def)
qed

theorem webhook_mismatch_rejected_witness:
  "body unsigned_event \<noteq> JUndefined
   \<and> signature unsigned_event
       \<noteq> map_option (hmac_sha256_hex ''sk_test_1'') (JSON_stringify (body unsigned_event))
   \<and> webhook ''sk_test_1'' unsigned_event = Inr invalid_signature
   \<and> response invalid_signature = \<lparr>status = 400, reply = Text ''Invalid signature''\<rparr>
   \<and> handled invalid_signature = None \<and> console invalid_signature = []"
  using webhook_mismatch_rejected [of unsigned_event "''sk_test_1''"]
  by (simp add: unsigned_event_def blank_def)

text \<open>
  C3. An event whose signature header equals the computed digest is answered 200 with
  the plain text \<^verbatim>\<open>Webhook received\<close>, whichever arm is taken, and the arm is chosen
  by comparing the \<^verbatim>\<open>event\<close> field with the two strings: \<^verbatim>\<open>charge.success\<close> goes to
  the success arm, \<^verbatim>\<open>charge.failed\<close> to the failed arm, and every other value (another
  string, a value that is not a string, a missing field) to the default arm.
\<close>

theorem webhook_dispatch:
  assumes "\<not> nullish (body req)"
    and "signature req = map_option (hmac_sha256_hex secret) (JSON_stringify (body req))"
  shows "webhook secret req = Inr (acknowledged (dispatch (get (body req) ''event'')) (body req))
         \<and> response (acknowledged h ev) = \<lparr>status = 200, reply = Text ''Webhook received''\<rparr>
         \<and> handled (acknowledged h ev) = Some h
         \<and> (dispatch tag = Charge_success \<longleftrightarrow> tag = JStr ''charge.success'')
         \<and> (dispatch tag = Charge_failed \<longleftrightarrow> tag = JStr ''charge.failed'')
         \<and> (dispatch tag = Unhandled
              \<longleftrightarrow> tag \<noteq> JStr ''charge.success'' \<and> tag \<noteq> JStr ''charge.failed'')"
proof -
  from assms(1) have "body req \<noteq> JUndefined" by (simp add: nullish_def)
  then obtain s where s: "JSON_stringify (body req) = Some s"
    using JSON_stringify_defined by blast
  with assms show ?thesis
    by (simp add: webhook_def read_property_def acknowledged_def dispatch_def)
qed

theorem webhook_dispatch_witness:
  "\<not> nullish (body unknown_event)
   \<and> signature unknown_event
       = map_option (hmac_sha256_hex ''sk_test_1'') (JSON_stringify (body unknown_event))
   \<and> webhook ''sk_test_1'' unknown_event = Inr (acknowledged Unhandled (body unknown_event))
   \<and> response (acknowledged Unhandled (body unknown_event))
       = \<lparr>status = 200, reply = Text ''Webhook received''\<rparr>
   \<and> handled (acknowledged Unhandled (body unknown_event)) = Some Unhandled"
  using webhook_dispatch
    [of unknown_event "''sk_test_1''" Unhandled "body unknown_event" "JStr ''totally.unknown''"]
  by (simp add: unknown_event_def blank_def nullish_def quote_def json_escape_def dispatch_def)

subsection \<open>Initializing a payment\<close>




text \<open>
  C5, as the code has it. When \<^verbatim>\<open>email\<close> or \<^verbatim>\<open>amount\<close> is falsy, that is missing
  (\<^verbatim>\<open>undefined\<close>), \<^verbatim>\<open>null\<close>, \<^verbatim>\<open>false\<close>, the empty string, the number zero of either
  sign or \<^verbatim>\<open>NaN\<close>, the answer is 400 with \<^verbatim>\<open>{status: false, message}\<close> and no call
  goes out. \<^verbatim>\<open>req.body\<close> is what a body parser built, an object or an array, so it is
  not \<open>nullish\<close>.
\<close>

theorem initialize_missing_rejected:
  assumes "\<not> nullish (body req)"
    and "v = get (body req) ''email'' \<or> v = get (body req) ''amount''"
    and "v = JUndefined \<or> v = JNull \<or> v = JBool False \<or> v = JStr []
         \<or> v = JNum (Fin 0) \<or> v = JNum NegZero \<or> v = JNum NaN"
  shows "initialize_payment key e axios req = validation_failure
         \<and> response validation_failure =
             \<lparr>status = 400,
              reply = Json (JObj [(''status'', JBool False),
                                  (''message'', JStr ''Email and amount are required'')])\<rparr>
         \<and> calls validation_failure = []"
proof -
  from assms(3) have "\<not> truthy v" by (simp only: not_truthy_iff) blast
  with assms(2) have "\<not> truthy (get (body req) ''email'') \<or> \<not> truthy (get (body req) ''amount'')"
    by blast
  with assms(1) show ?thesis
    by (auto simp: initialize_payment_def validation_failure_def)
qed

theorem initialize_missing_rejected_witness:
  "\<not> nullish (body missing_amount)
   \<and> get (body missing_amount) ''amount'' = JUndefined
   \<and> initialize_payment ''sk_test_1'' clock accepted missing_amount = validation_failure
   \<and> calls validation_failure = []"
  using initialize_missing_rejected
    [of missing_amount JUndefined "''sk_test_1''" clock accepted]
  by (simp add: missing_amount_def blank_def nullish_def)

text \<open>
  C5, as the claim states it, fails. An amount of zero that arrives as the string
  \<^verbatim>\<open>"0"\<close> is truthy: the request is not refused, one call goes out with the amount
  \<open>0\<close>, and the processor's answer is relayed with status 200.
\<close>

theorem zero_as_text_counterexample:
  "\<not> nullish (body zero_as_text) \<and> truthy (get (body zero_as_text) ''email'')
   \<and> get (body zero_as_text) ''amount'' = JStr ''0''
   \<and> to_number (get (body zero_as_text) ''amount'') = Fin 0
   \<and> calls (initialize_payment ''sk_test_1'' clock accepted zero_as_text)
       = [initialize_call ''sk_test_1'' clock zero_as_text]
   \<and> get (payload (initialize_call ''sk_test_1'' clock zero_as_text)) ''amount'' = JNum (Fin 0)
   \<and> status (response (initialize_payment ''sk_test_1'' clock accepted zero_as_text)) = 200"
  by (simp add: initialize_payment_def initialize_call_def paymentData_def relay_def
      accepted_def read_property_def nullish_def zero_as_text_def blank_def
      text_zero_times_100 text_zero_reads)








subsection \<open>Failures of the processor\<close>




subsection \<open>The callback\<close>

text \<open>
  C9, as the code has it. The redirect goes to \<^verbatim>\<open>/?reference=R&status=success\<close>,
  where \<open>R\<close> is the \<^verbatim>\<open>reference\<close> parameter when that is a non-empty string, and the
  \<^verbatim>\<open>trxref\<close> parameter when \<^verbatim>\<open>reference\<close> is absent or empty. No call to the
  processor is made.
\<close>

theorem callback_redirect:
  assumes "(get (JObj (query req)) ''reference'' = JStr R \<and> R \<noteq> [])
           \<or> (\<not> truthy (get (JObj (query req)) ''reference'')
               \<and> get (JObj (query req)) ''trxref'' = JStr R)"
  shows "payment_callback req =
           \<lparr>response = \<lparr>status = 302,
                         reply = Redirect (''/?reference='' @ R @ ''&status=success'')\<rparr>,
            calls = [], console = []\<rparr>
         \<and> contains (''/?reference='' @ R @ ''&status=success'') (''reference='' @ R)
         \<and> contains (''/?reference='' @ R @ ''&status=success'') ''status=success''"
proof -
  have "contains (''/?'' @ (''reference='' @ R) @ ''&status=success'') (''reference='' @ R)"
    by (rule contains_append)
  moreover have "contains ((''/?reference='' @ R @ ''&'') @ ''status=success'' @ []) ''status=success''"
    by (rule contains_append)
  ultimately show ?thesis
    using assms by (auto simp: payment_callback_def or_else_def)
qed

theorem callback_redirect_witness:
  "get (JObj (query unverified_callback)) ''reference'' = JStr ''abc123''
   \<and> ''abc123'' \<noteq> []
   \<and> payment_callback unverified_callback =
        \<lparr>response = \<lparr>status = 302, reply = Redirect ''/?reference=abc123&status=success''\<rparr>,
         calls = [], console = []\<rparr>"
  using callback_redirect [of unverified_callback "''abc123''"]
  by (simp add: unverified_callback_def blank_def)


text \<open>
  C9, as the claim states it, fails for a request that carries both parameters with
  different values: \<^verbatim>\<open>trxref=xyz\<close> is not in the redirect.
\<close>

theorem callback_prefers_reference_counterexample:
  "get (JObj (query two_references)) ''trxref'' = JStr ''xyz''
   \<and> reply (response (payment_callback two_references)) = Redirect ''/?reference=abc&status=success''
   \<and> \<not> contains ''/?reference=abc&status=success'' ''reference=xyz''"
  by (simp add: two_references_def blank_def payment_callback_def or_else_def)


subsection \<open>Listing transactions\<close>

text \<open>
  C10. The URL of the outbound call is the concatenation of the fixed text, the
  \<^verbatim>\<open>page\<close> value, \<^verbatim>\<open>&perPage=\<close> and the \<^verbatim>\<open>perPage\<close> value, with 1 and 10 for the
  absent ones and nothing escaped. With \<^verbatim>\<open>page\<close> set to \<^verbatim>\<open>1&status=success\<close> the
  processor is sent a third parameter, \<^verbatim>\<open>status\<close>, chosen by the caller.
\<close>

theorem transactions_url_unescaped:
  assumes "get (JObj (query req)) ''page'' = JStr p
           \<or> (get (JObj (query req)) ''page'' = JUndefined \<and> p = ''1'')"
    and "get (JObj (query req)) ''perPage'' = JStr n
           \<or> (get (JObj (query req)) ''perPage'' = JUndefined \<and> n = ''10'')"
  shows "calls (transactions key axios req) = [transactions_call key req]
         \<and> url (transactions_call key req)
             = ''https://api.paystack.co/transaction?page='' @ p @ ''&perPage='' @ n
         \<and> url (transactions_call key injected_page)
             = ''https://api.paystack.co/transaction?page=1&status=success&perPage=10''
         \<and> query_pairs (url (transactions_call key injected_page))
             = [(''page'', ''1''), (''status'', ''success''), (''perPage'', ''10'')]"
proof -
  have a: "calls (transactions key axios req) = [transactions_call key req]"
    by (simp add: transactions_def relay_def failure_def split: upstream_result.splits sum.splits)
  have b: "url (transactions_call key req)
             = ''https://api.paystack.co/transaction?page='' @ p @ ''&perPage='' @ n"
    using assms by (auto simp: transactions_call_def transactions_url_def pos_to_string_1 pos_to_string_10)
  have c: "url (transactions_call key injected_page)
             = ''https://api.paystack.co/transaction?page=1&status=success&perPage=10''"
    by (simp add: transactions_call_def transactions_url_def injected_page_def blank_def pos_to_string_10)
  have d: "query_pairs ''https://api.paystack.co/transaction?page=1&status=success&perPage=10''
             = [(''page'', ''1''), (''status'', ''success''), (''perPage'', ''10'')]"
    by (simp add: query_pairs_def)
  from a b c d show ?thesis by simp
qed

theorem transactions_url_unescaped_witness:
  "get (JObj (query injected_page)) ''page'' = JStr ''1&status=success''
   \<and> get (JObj (query injected_page)) ''perPage'' = JUndefined
   \<and> calls (transactions ''sk_test_1'' accepted injected_page)
        = [transactions_call ''sk_test_1'' injected_page]
   \<and> url (transactions_call ''sk_test_1'' injected_page)
        = ''https://api.paystack.co/transaction?page=1&status=success&perPage=10''"
  using transactions_url_unescaped
    [of injected_page "''1&status=success''" "''10''" "''sk_test_1''" accepted]
  by (simp add: injected_page_def blank_def)

end
